theory Spec2Isabelle
  imports
    Complex_Main
    "HOL-Library.Multiset"
    "HOL-Library.Sublist"
    "HOL-Library.Char_ord"
    "HOL-Library.List_Lexorder"
begin

section \<open>Shipwreck explorer: the data pipeline of app.py\<close>

text \<open>
  The program reads a table of shipwrecks into a pandas DataFrame, adds derived columns,
  filters the rows by three masks and hands the filtered frame to one of four views.
  A DataFrame is modelled as the list of its rows in table order; a cell that pandas
  holds as NaN is \<open>None\<close>. The numeric columns YEAR and LIVES LOST are float64 in pandas
  once a cell is missing; the table holds whole numbers there, which float64 represents
  exactly, so they are modelled as \<open>int\<close>. Coordinates are modelled as \<open>real\<close>.
\<close>

subsection \<open>Rows\<close>

text \<open>A row of the table after \<open>pd.read_csv\<close> and the four \<open>pd.to_numeric\<close> coercions.\<close>

record raw_row =
  ships_name :: "string option"
  year :: "int option"
  vessel_type :: "string option"
  lives_lost :: "int option"
  location_lost :: "string option"
  cause_of_loss :: "string option"
  latitude :: "real option"
  longitude :: "real option"

text \<open>A row of the frame that \<open>load_data\<close> returns: the raw columns and the derived ones.\<close>

record wreck = raw_row +
  lives_lost_clean :: int
  decade :: "int option"
  century :: "int option"
  has_coords :: bool

subsection \<open>load\_data\<close>

text \<open>\<open>df["LIVES LOST"].fillna(0).astype(int)\<close>, cell by cell.\<close>

definition fillna0 :: "int option \<Rightarrow> int" where
  "fillna0 c = (case c of None \<Rightarrow> 0 | Some v \<Rightarrow> v)"

text \<open>\<open>lambda y: int(y // 10 * 10) if pd.notna(y) else np.nan\<close>\<close>

definition decade_of :: "int option \<Rightarrow> int option" where
  "decade_of c = (case c of None \<Rightarrow> None | Some y \<Rightarrow> Some (y div 10 * 10))"

text \<open>\<open>lambda y: int(math.floor(y / 100) + 1) if pd.notna(y) else np.nan\<close>:
  true division, then the floor.\<close>

definition century_of :: "int option \<Rightarrow> int option" where
  "century_of c = (case c of None \<Rightarrow> None | Some y \<Rightarrow> Some (\<lfloor>real_of_int y / 100\<rfloor> + 1))"

text \<open>\<open>df["LATITUDE"].notna() & df["LONGITUDE"].notna()\<close>, cell by cell.\<close>

definition notna :: "'a option \<Rightarrow> bool" where
  "notna c = (case c of None \<Rightarrow> False | Some _ \<Rightarrow> True)"

definition derive :: "raw_row \<Rightarrow> wreck" where
  "derive r =
     raw_row.extend r
       \<lparr> lives_lost_clean = fillna0 (lives_lost r),
         decade = decade_of (year r),
         century = century_of (year r),
         has_coords = (notna (latitude r) \<and> notna (longitude r)) \<rparr>"

definition load_data :: "raw_row list \<Rightarrow> wreck list" where
  "load_data rows = map derive rows"

subsection \<open>Errors\<close>

text \<open>The exceptions the pandas and Python operations used below can raise.\<close>

datatype error = ValueError | IndexError

subsection \<open>Series and frame operations\<close>

text \<open>\<open>Series.dropna()\<close>: the present cells, in order.\<close>

fun dropna :: "'a option list \<Rightarrow> 'a list" where
  "dropna [] = []"
| "dropna (None # cs) = dropna cs"
| "dropna (Some v # cs) = v # dropna cs"

text \<open>\<open>Series.min()\<close> and \<open>Series.max()\<close> on a series without missing cells: NaN
  (\<open>None\<close>) on the empty series.\<close>

fun series_min :: "int list \<Rightarrow> int option" where
  "series_min [] = None"
| "series_min (v # vs) = Some (fold min vs v)"

fun series_max :: "int list \<Rightarrow> int option" where
  "series_max [] = None"
| "series_max (v # vs) = Some (fold max vs v)"

text \<open>\<open>int(x)\<close> of a float: raises ValueError on NaN.\<close>

definition py_int :: "int option \<Rightarrow> error + int" where
  "py_int c = (case c of None \<Rightarrow> Inl ValueError | Some v \<Rightarrow> Inr v)"

text \<open>\<open>Series.mean()\<close>: the mean of the present cells, NaN when there is none.\<close>

definition series_mean :: "real option list \<Rightarrow> real option" where
  "series_mean cs =
     (let xs = dropna cs in if xs = [] then None else Some (sum_list xs / real (length xs)))"

text \<open>\<open>Series.between(lo, hi)\<close>, cell by cell: inclusive at both ends, False on NaN.\<close>

definition between :: "int option \<Rightarrow> int \<Rightarrow> int \<Rightarrow> bool" where
  "between c lo hi = (case c of None \<Rightarrow> False | Some y \<Rightarrow> lo \<le> y \<and> y \<le> hi)"

text \<open>\<open>Series.isin(values)\<close>, cell by cell, for a list of strings: False on NaN.\<close>

definition isin :: "string option \<Rightarrow> string list \<Rightarrow> bool" where
  "isin c vs = (case c of None \<Rightarrow> False | Some v \<Rightarrow> v \<in> set vs)"

text \<open>\<open>a & b\<close> on two boolean series of the same frame.\<close>

definition mask_and :: "bool list \<Rightarrow> bool list \<Rightarrow> bool list" where
  "mask_and a b = map2 (\<and>) a b"

text \<open>\<open>df[mask]\<close>: the rows whose mask cell is True, in table order.\<close>

definition select_rows :: "'r list \<Rightarrow> bool list \<Rightarrow> 'r list" where
  "select_rows df row_mask = map fst (filter snd (zip df row_mask))"

subsection \<open>filter\_wrecks\<close>

text \<open>\<open>not vessel_types\<close> holds for \<open>None\<close> and for the empty list.\<close>

fun type_mask :: "wreck list \<Rightarrow> string list option \<Rightarrow> bool list" where
  "type_mask df None = map (\<lambda>r. notna (vessel_type r)) df"
| "type_mask df (Some []) = map (\<lambda>r. notna (vessel_type r)) df"
| "type_mask df (Some vessel_types) = map (\<lambda>r. isin (vessel_type r) vessel_types) df"

definition year_mask :: "wreck list \<Rightarrow> int \<times> int \<Rightarrow> bool list" where
  "year_mask df year_range = map (\<lambda>r. between (year r) (fst year_range) (snd year_range)) df"

definition lives_mask :: "wreck list \<Rightarrow> int \<Rightarrow> bool list" where
  "lives_mask df min_lives_lost = map (\<lambda>r. min_lives_lost \<le> lives_lost_clean r) df"

definition filter_wrecks ::
    "wreck list \<Rightarrow> int \<times> int \<Rightarrow> string list option \<Rightarrow> int \<Rightarrow> wreck list" where
  "filter_wrecks df year_range vessel_types min_lives_lost =
     (let row_mask = mask_and (mask_and (year_mask df year_range) (type_mask df vessel_types))
                       (lives_mask df min_lives_lost)
      in select_rows df row_mask)"

subsection \<open>get\_year\_limits\<close>

definition get_year_limits :: "wreck list \<Rightarrow> error + (int \<times> int)" where
  "get_year_limits df =
     (let years = dropna (map year df)
      in if years = [] then Inr (1705, 2000)
         else (case py_int (series_min years) of
                 Inl e \<Rightarrow> Inl e
               | Inr lo \<Rightarrow> (case py_int (series_max years) of
                             Inl e \<Rightarrow> Inl e
                           | Inr hi \<Rightarrow> Inr (lo, hi))))"

subsection \<open>Grouped counts\<close>

text \<open>A row of a counts frame: its index label, the group key and the count.\<close>

record 'k count_row =
  row_label :: nat
  group_key :: 'k
  wreck_count :: nat

text \<open>\<open>df.groupby(key)["SHIP'S NAME"].count()\<close>: one group per present key, the groups
  in ascending key order, each with the number of its rows whose ship's name is present.\<close>

definition groupby_count :: "(wreck \<Rightarrow> 'k::linorder option) \<Rightarrow> wreck list \<Rightarrow> ('k \<times> nat) list" where
  "groupby_count key df =
     map (\<lambda>k. (k, length (filter (\<lambda>r. key r = Some k \<and> notna (ships_name r)) df)))
       (sort (remdups (dropna (map key df))))"

text \<open>\<open>.reset_index(name="WRECK COUNT")\<close>: the groups become rows labelled 0, 1, ...\<close>

definition reset_index :: "('k \<times> nat) list \<Rightarrow> 'k count_row list" where
  "reset_index gs =
     map (\<lambda>(i, (k, c)). \<lparr> row_label = i, group_key = k, wreck_count = c \<rparr>) (enumerate 0 gs)"

text \<open>\<open>counts.sort_values("WRECK COUNT", ascending=False)\<close>: the rows keep their labels.
  Rows of equal count are kept in their order (pandas leaves the order of ties to the
  sorting algorithm).\<close>

definition sort_counts_desc :: "'k count_row list \<Rightarrow> 'k count_row list" where
  "sort_counts_desc counts = sort_key (\<lambda>r. - int (wreck_count r)) counts"

text \<open>\<open>Series.idxmax()\<close>: the index label of the first cell holding the maximum;
  ValueError on the empty series.\<close>

fun idxmax :: "(nat \<times> nat) list \<Rightarrow> error + nat" where
  "idxmax [] = Inl ValueError"
| "idxmax ((l, v) # s) =
     Inr (fst (fold (\<lambda>(l', v') (l, v). if v < v' then (l', v') else (l, v)) s (l, v)))"

text \<open>\<open>df.iloc[i]\<close> for a non-negative integer: the row at position i; IndexError out of
  range.\<close>

definition iloc :: "'r list \<Rightarrow> nat \<Rightarrow> error + 'r" where
  "iloc df i = (if i < length df then Inr (df ! i) else Inl IndexError)"

subsection \<open>The page\<close>

text \<open>A view writes Streamlit elements to the page one after the other. A view is
  modelled as the list of the elements it writes, or the exception it raises. Charts
  and tables carry the data they are drawn from; \<open>MostFrequent\<close> is the sentence that
  names the most frequently wrecked vessel type and its count; \<open>Metric\<close> carries the
  column \<open>i % 2\<close>, the label and the value.\<close>

type_synonym table_row =
  "string option \<times> int option \<times> string option \<times> string option \<times> string option \<times> int option"

datatype widget =
    Header string
  | Subheader string
  | Info string
  | Caption string
  | Write string
  | PydeckChart "(wreck \<times> nat list) list" "real option" "real option"
  | BarChart "string count_row list"
  | MostFrequent string nat
  | CountsTable "string count_row list"
  | LineChart "int count_row list"
  | PivotTable "(int \<times> (string \<times> nat) list) list"
  | TopTable "table_row list"
  | Metric nat string int

subsection \<open>show\_map\_view\<close>

text \<open>\<open>lambda x: [0, 180, 0, 160] if x == 0 else [220, 0, 0, 200]\<close>\<close>

definition color_of :: "int \<Rightarrow> nat list" where
  "color_of x = (if x = 0 then [0, 180, 0, 160] else [220, 0, 0, 200])"

definition show_map_view :: "wreck list \<Rightarrow> error + widget list" where
  "show_map_view filtered =
     (let map_data = select_rows filtered (map has_coords filtered)
      in if map_data = [] then
           Inr [Header ''Map of Shipwreck Locations'',
                Info ''No wrecks with valid coordinates for the current filters.'']
         else
           (let center_lat = series_mean (map latitude map_data);
                center_lon = series_mean (map longitude map_data);
                coloured = map (\<lambda>r. (r, color_of (lives_lost_clean r))) map_data
            in Inr [Header ''Map of Shipwreck Locations'',
                    PydeckChart coloured center_lat center_lon,
                    Caption ''Green dots = no lives lost, red dots = lives were lost.'']))"

subsection \<open>show\_vessel\_chart\_view\<close>

text \<open>\<open>counts.iloc[counts["WRECK COUNT"].idxmax()]\<close>: \<open>idxmax\<close> runs over the count
  column of the sorted frame and returns a label; \<open>iloc\<close> reads it as a position.\<close>

definition show_vessel_chart_view :: "wreck list \<Rightarrow> error + widget list" where
  "show_vessel_chart_view filtered =
     (if filtered = [] then
        Inr [Header ''Wrecks by Vessel Type'', Info ''No wrecks match the current filters.'']
      else
        (let counts = reset_index (groupby_count vessel_type filtered);
             counts = sort_counts_desc counts
         in case idxmax (map (\<lambda>r. (row_label r, wreck_count r)) counts) of
              Inl e \<Rightarrow> Inl e
            | Inr i \<Rightarrow>
                (case iloc counts i of
                   Inl e \<Rightarrow> Inl e
                 | Inr max_row \<Rightarrow>
                     Inr [Header ''Wrecks by Vessel Type'',
                          BarChart counts,
                          MostFrequent (group_key max_row) (wreck_count max_row),
                          CountsTable counts])))"

subsection \<open>show\_time\_trend\_view\<close>

text \<open>\<open>filtered.pivot_table(index="DECADE", columns="VESSEL TYPE", values="SHIP'S NAME",
  aggfunc="count", fill_value=0)\<close>: rows with a missing key are left out; one table row
  per decade and one column per vessel type, both ascending; a cell counts the present
  ship's names of its decade and type.\<close>

definition pivot_table :: "wreck list \<Rightarrow> (int \<times> (string \<times> nat) list) list" where
  "pivot_table df =
     (let rows = filter (\<lambda>r. notna (decade r) \<and> notna (vessel_type r)) df;
          decades = sort (remdups (dropna (map decade rows)));
          types = sort (remdups (dropna (map vessel_type rows)))
      in map (\<lambda>d. (d, map (\<lambda>t. (t, length (filter (\<lambda>r. decade r = Some d \<and>
                  vessel_type r = Some t \<and> notna (ships_name r)) rows))) types)) decades)"

definition show_time_trend_view :: "wreck list \<Rightarrow> error + widget list" where
  "show_time_trend_view filtered =
     (if filtered = [] then
        Inr [Header ''Wrecks Over Time'', Info ''No wrecks match the current filters.'']
      else
        (let yearly = reset_index (groupby_count year filtered);
             pivot = pivot_table filtered
         in Inr [Header ''Wrecks Over Time'',
                 LineChart yearly,
                 Subheader ''Wrecks by Decade and Vessel Type'',
                 PivotTable pivot]))"

subsection \<open>show\_deadliest\_view\<close>

text \<open>\<open>filtered.sort_values("LIVES_LOST_CLEAN", ascending=False)\<close>; rows of equal
  value are kept in their order.\<close>

definition sort_deadly :: "wreck list \<Rightarrow> wreck list" where
  "sort_deadly filtered = sort_key (\<lambda>r. - lives_lost_clean r) filtered"

text \<open>\<open>df.head(n)\<close>\<close>

definition head :: "nat \<Rightarrow> 'r list \<Rightarrow> 'r list" where
  "head n df = take n df"

text \<open>The six columns the table of the view shows.\<close>

definition shown_columns :: "wreck \<Rightarrow> table_row" where
  "shown_columns r =
     (ships_name r, year r, vessel_type r, location_lost r, cause_of_loss r, lives_lost r)"

text \<open>\<open>sep.join(strings)\<close>\<close>

fun join :: "string \<Rightarrow> string list \<Rightarrow> string" where
  "join sep [] = []"
| "join sep [s] = s"
| "join sep (s # ss) = s @ sep @ join sep ss"

definition show_deadliest_view :: "wreck list \<Rightarrow> error + widget list" where
  "show_deadliest_view filtered =
     (if filtered = [] then
        Inr [Header ''Deadliest Wrecks'', Info ''No wrecks match the current filters.'']
      else
        (let deadly = sort_deadly filtered;
             top10 = head 10 deadly;
             lives = map lives_lost_clean filtered
         in case py_int (series_max lives) of
              Inl e \<Rightarrow> Inl e
            | Inr most \<Rightarrow>
                (let stats =
                   [(''Total wrecks in this selection'', int (length filtered)),
                    (''Wrecks with at least 1 life lost'', int (length (filter (\<lambda>v. 0 < v) lives))),
                    (''Total lives lost in this selection'', sum_list lives),
                    (''Maximum lives lost in a single wreck'', most)]
                 in Inr ([Header ''Deadliest Wrecks'',
                          Write ''Top 10 deadliest wrecks in the current selection:'',
                          TopTable (map shown_columns top10),
                          Subheader ''Summary Statistics'']
                         @ map (\<lambda>(i, (label, v)). Metric (i mod 2) label v) (enumerate 0 stats)
                         @ [Caption (''Stats included: '' @ join '', '' (map fst stats))]))))"

subsection \<open>The dispatch of main\<close>

datatype view_choice = MapView | VesselTypes | TimeTrends | DeadliestWrecks

fun show_view :: "view_choice \<Rightarrow> wreck list \<Rightarrow> error + widget list" where
  "show_view MapView filtered = show_map_view filtered"
| "show_view VesselTypes filtered = show_vessel_chart_view filtered"
| "show_view TimeTrends filtered = show_time_trend_view filtered"
| "show_view DeadliestWrecks filtered = show_deadliest_view filtered"

subsection \<open>Example rows\<close>

text \<open>A table row with a name, a year, a vessel type and a number of lives lost; the
  other cells are missing.\<close>

definition row :: "string \<Rightarrow> int option \<Rightarrow> string option \<Rightarrow> int option \<Rightarrow> raw_row" where
  "row n y t l =
     \<lparr> ships_name = Some n, year = y, vessel_type = t, lives_lost = l,
       location_lost = None, cause_of_loss = None, latitude = None, longitude = None \<rparr>"

definition example_rows :: "raw_row list" where
  "example_rows =
     [row ''Anna'' (Some 1850) (Some ''Schooner'') (Some 3),
      row ''Bell'' (Some 1851) (Some ''Barge'') None,
      row ''Cora'' (Some 1852) (Some ''Schooner'') (Some 0),
      row ''Dora'' (Some 1920) (Some ''Steamer'') (Some 50),
      row ''Erin'' None None (Some 7)]"

text \<open>The view of the example table for the years 1840 to 1860, no vessel types
  selected and no minimum of lives lost.\<close>

definition example_view :: "wreck list" where
  "example_view = filter_wrecks (load_data example_rows) (1840, 1860) None 0"

subsection \<open>The filter as the specification words it\<close>

text \<open>The three predicates of the filter engine, stated on one record: the year is
  present and within the inclusive range; the vessel type is present and, when types are
  selected, is one of them; the cleaned number of lives lost reaches the threshold.\<close>

definition accept_year :: "int \<times> int \<Rightarrow> wreck \<Rightarrow> bool" where
  "accept_year year_range r =
     (case year r of None \<Rightarrow> False | Some y \<Rightarrow> fst year_range \<le> y \<and> y \<le> snd year_range)"

definition accept_type :: "string list option \<Rightarrow> wreck \<Rightarrow> bool" where
  "accept_type vessel_types r =
     (case vessel_type r of
        None \<Rightarrow> False
      | Some t \<Rightarrow> (case vessel_types of None \<Rightarrow> True | Some ts \<Rightarrow> ts = [] \<or> t \<in> set ts))"

definition accept_lives :: "int \<Rightarrow> wreck \<Rightarrow> bool" where
  "accept_lives m r = (m \<le> lives_lost_clean r)"

section \<open>Properties\<close>

subsection \<open>Evaluating the example\<close>

lemmas eval_defs =
  example_rows_def example_view_def load_data_def derive_def row_def raw_row.extend_def
  fillna0_def decade_of_def century_of_def notna_def filter_wrecks_def year_mask_def
  lives_mask_def mask_and_def select_rows_def between_def isin_def

lemma floor_div_100: "\<lfloor>real_of_int y / 100\<rfloor> = y div 100"
  using floor_divide_of_int_eq [of y 100, where ?'a = real] by simp

lemma example_view_eq: "example_view = load_data (take 3 example_rows)"
  by (simp add: eval_defs)

subsection \<open>Derived columns\<close>

lemma century_of_Some: "century_of (Some y) = Some (y div 100 + 1)"
  by (simp add: century_of_def floor_div_100)

lemma century_derive: "century (derive r) = century_of (year r)"
  by (simp add: derive_def raw_row.extend_def)

text \<open>
  C1. The century column of a loaded record is \<open>floor(year/100) + 1\<close> when the year
  is present and is missing when the year is missing. The year 1895 gives 19, the year
  1901 gives 20, and the year 1900 gives 20 (not 19): 1900/100 is exactly 19.
\<close>

theorem century_derivation:
  "map century (load_data rows) = map (\<lambda>r. map_option (\<lambda>y. y div 100 + 1) (year r)) rows
   \<and> map century (load_data [row n (Some 1895) t l, row n (Some 1900) t l,
                             row n (Some 1901) t l, row n None t l])
       = [Some 19, Some 20, Some 20, None]"
proof -
  have "century (derive r) = map_option (\<lambda>y. y div 100 + 1) (year r)" for r
    by (cases "year r") (simp_all add: century_derive century_of_def floor_div_100)
  then have general:
    "map century (load_data rows) = map (\<lambda>r. map_option (\<lambda>y. y div 100 + 1) (year r)) rows"
    by (simp add: load_data_def)
  show ?thesis
    by (simp add: general) (simp add: load_data_def century_derive row_def century_of_def floor_div_100)
qed

theorem century_derivation_witness:
  "map century (load_data example_rows) = [Some 19, Some 19, Some 19, Some 20, None]"
  using century_derivation [of example_rows]
  by (simp add: example_rows_def row_def)

theorem century_1900_counterexample:
  "map century (load_data [row ''Anna'' (Some 1900) None None]) \<noteq> [Some 19]"
  by (simp add: load_data_def century_derive row_def century_of_Some)

lemma lives_lost_clean_derive: "lives_lost_clean (derive r) = fillna0 (lives_lost r)"
  by (simp add: derive_def raw_row.extend_def)

subsection \<open>The filter\<close>

lemma select_rows_map: "select_rows df (map P df) = filter P df"
  by (induction df) (simp_all add: select_rows_def)

lemma mask_and_map: "mask_and (map P df) (map Q df) = map (\<lambda>r. P r \<and> Q r) df"
  by (induction df) (simp_all add: mask_and_def)

lemma type_mask_accept: "type_mask df vessel_types = map (accept_type vessel_types) df"
proof (cases vessel_types)
  case None
  then show ?thesis by (simp add: accept_type_def notna_def split: option.splits)
next
  case (Some ts)
  then show ?thesis
    by (cases ts) (simp_all add: accept_type_def notna_def isin_def split: option.splits)
qed

lemma filter_wrecks_filter:
  "filter_wrecks df year_range vessel_types m =
     filter (\<lambda>r. accept_year year_range r \<and> accept_type vessel_types r \<and> accept_lives m r) df"
proof -
  have y: "year_mask df year_range = map (accept_year year_range) df"
    by (simp add: year_mask_def accept_year_def between_def)
  have l: "lives_mask df m = map (accept_lives m) df"
    by (simp add: lives_mask_def accept_lives_def)
  show ?thesis
    unfolding filter_wrecks_def Let_def y l type_mask_accept mask_and_map select_rows_map
    by (simp add: conj_assoc)
qed

text \<open>
  C3. For every frame and every criteria, \<open>filter_wrecks\<close> returns exactly the records
  that satisfy the year predicate, the vessel-type predicate and the lives-lost predicate
  together, in the order of the source table: the result is the input filtered by the
  conjunction, and so a subsequence of the input.
\<close>

theorem filter_wrecks_subsequence:
  "filter_wrecks df year_range vessel_types m =
     filter (\<lambda>r. accept_year year_range r \<and> accept_type vessel_types r \<and> accept_lives m r) df
   \<and> subseq (filter_wrecks df year_range vessel_types m) df"
  by (simp add: filter_wrecks_filter)

theorem filter_wrecks_subsequence_witness:
  "filter_wrecks (load_data example_rows) (1840, 1860) None 0 = load_data (take 3 example_rows)
   \<and> subseq (filter_wrecks (load_data example_rows) (1840, 1860) None 0) (load_data example_rows)"
proof -
  have kept: "filter_wrecks (load_data example_rows) (1840, 1860) None 0
      = load_data (take 3 example_rows)"
    using example_view_eq by (simp add: example_view_def)
  have "subseq (filter_wrecks (load_data example_rows) (1840, 1860) None 0)
      (load_data example_rows)"
    using filter_wrecks_subsequence [of "load_data example_rows" "(1840, 1860)" None 0]
    by (rule conjunct2)
  with kept show ?thesis by (rule conjI)
qed

text \<open>
  C4. Every record of the filtered view has a present year within the inclusive range
  \<open>[lo, hi]\<close>; a record without a year is never in the view.
\<close>

theorem filter_wrecks_year_in_range:
  assumes "r \<in> set (filter_wrecks df (lo, hi) vessel_types m)"
  shows "\<exists>y. year r = Some y \<and> lo \<le> y \<and> y \<le> hi"
  using assms by (auto simp add: filter_wrecks_filter accept_year_def split: option.splits)

theorem filter_wrecks_year_in_range_witness:
  "derive (row ''Anna'' (Some 1850) (Some ''Schooner'') (Some 3))
     \<in> set (filter_wrecks (load_data example_rows) (1840, 1860) None 0)
   \<and> (\<exists>y. year (derive (row ''Anna'' (Some 1850) (Some ''Schooner'') (Some 3))) = Some y
          \<and> 1840 \<le> y \<and> y \<le> 1860)"
proof -
  have member: "derive (row ''Anna'' (Some 1850) (Some ''Schooner'') (Some 3))
      \<in> set (filter_wrecks (load_data example_rows) (1840, 1860) None 0)"
    using example_view_eq by (simp add: example_view_def example_rows_def load_data_def)
  show ?thesis
    using member filter_wrecks_year_in_range [OF member] by simp
qed

text \<open>
  C5. With no vessel types selected (\<open>None\<close> or the empty list) the vessel-type mask
  keeps exactly the records whose vessel type is present, so a record without a vessel
  type is left out although no type is asked for; with a non-empty selection it keeps
  exactly the records whose vessel type is one of the selected.
\<close>

theorem vessel_type_predicate:
  "select_rows df (type_mask df None) = filter (\<lambda>r. vessel_type r \<noteq> None) df
   \<and> select_rows df (type_mask df (Some [])) = filter (\<lambda>r. vessel_type r \<noteq> None) df
   \<and> select_rows df (type_mask df (Some (t # ts))) =
       filter (\<lambda>r. vessel_type r \<in> Some ` set (t # ts)) df"
  by (auto simp add: select_rows_map notna_def isin_def split: option.splits intro!: filter_cong)

theorem vessel_type_predicate_witness:
  "select_rows (load_data example_rows) (type_mask (load_data example_rows) None)
     = load_data (take 4 example_rows)
   \<and> select_rows (load_data example_rows) (type_mask (load_data example_rows) (Some [''Barge'']))
     = load_data [row ''Bell'' (Some 1851) (Some ''Barge'') None]"
  using vessel_type_predicate [of "load_data example_rows" "''Barge''" "[]"]
  by (simp add: example_rows_def load_data_def derive_def row_def raw_row.extend_def)

text \<open>
  C6. When every lives-lost cell of the table is missing or a non-negative whole number,
  the cleaned column of a loaded record is the lives-lost value when present and 0 when
  missing, it is never negative, and every record of a view filtered with the threshold
  \<open>m\<close> has a cleaned value of at least \<open>m\<close>.
\<close>

theorem lives_lost_clean_nonneg:
  assumes "\<forall>r\<in>set rows. case lives_lost r of None \<Rightarrow> True | Some v \<Rightarrow> 0 \<le> v"
  shows "map lives_lost_clean (load_data rows) =
           map (\<lambda>r. case lives_lost r of None \<Rightarrow> 0 | Some v \<Rightarrow> v) rows
         \<and> (\<forall>w\<in>set (load_data rows). 0 \<le> lives_lost_clean w)
         \<and> (\<forall>w\<in>set (filter_wrecks (load_data rows) year_range vessel_types m).
               m \<le> lives_lost_clean w)"
  using assms
  by (auto simp add: load_data_def lives_lost_clean_derive fillna0_def filter_wrecks_filter
      accept_lives_def split: option.splits)

theorem lives_lost_clean_nonneg_witness:
  "list_all (\<lambda>r. case lives_lost r of None \<Rightarrow> True | Some v \<Rightarrow> 0 \<le> v) example_rows
   \<and> map lives_lost_clean (load_data example_rows) = [3, 0, 0, 50, 7]
   \<and> list_all (\<lambda>w. 0 \<le> lives_lost_clean w) (load_data example_rows)
   \<and> list_all (\<lambda>w. 5 \<le> lives_lost_clean w)
       (filter_wrecks (load_data example_rows) (1700, 2000) None 5)"
proof -
  have h: "\<forall>r\<in>set example_rows. case lives_lost r of None \<Rightarrow> True | Some v \<Rightarrow> 0 \<le> v"
    by (simp add: example_rows_def row_def)
  have v: "map lives_lost_clean (load_data example_rows) = [3, 0, 0, 50, 7]"
    by (simp add: example_rows_def row_def load_data_def lives_lost_clean_derive fillna0_def)
  show ?thesis
    using h v lives_lost_clean_nonneg [OF h, of "(1700, 2000)" None 5]
    by (simp add: list_all_iff)
qed

text \<open>
  C7. Filtering is idempotent: filtering a filtered view again with the same criteria
  returns it unchanged.
\<close>

theorem filter_wrecks_idempotent:
  "filter_wrecks (filter_wrecks df year_range vessel_types m) year_range vessel_types m =
     filter_wrecks df year_range vessel_types m"
  by (simp add: filter_wrecks_filter)

theorem filter_wrecks_idempotent_witness:
  "filter_wrecks example_view (1840, 1860) None 0 = example_view"
  using filter_wrecks_idempotent [of "load_data example_rows" "(1840, 1860)" None 0]
  by (simp add: example_view_def)

subsection \<open>The year limits\<close>

lemma set_dropna: "set (dropna cs) = {v. Some v \<in> set cs}"
  by (induction cs rule: dropna.induct) auto

lemma series_min_Min: "vs \<noteq> [] \<Longrightarrow> series_min vs = Some (Min (set vs))"
  using Min.set_eq_fold [of "hd vs" "tl vs"] by (cases vs) simp_all

lemma series_max_Max: "vs \<noteq> [] \<Longrightarrow> series_max vs = Some (Max (set vs))"
  using Max.set_eq_fold [of "hd vs" "tl vs"] by (cases vs) simp_all

text \<open>
  C10. \<open>get_year_limits\<close> never raises. When some record has a year it returns the
  least and the greatest present year; when no record has one (the frame may be empty)
  it returns the fallback pair (1705, 2000).
\<close>

theorem get_year_limits_result:
  "get_year_limits df =
     (if {y. Some y \<in> year ` set df} = {} then Inr (1705, 2000)
      else Inr (Min {y. Some y \<in> year ` set df}, Max {y. Some y \<in> year ` set df}))"
proof -
  have present: "{y. Some y \<in> year ` set df} = set (dropna (map year df))"
    by (simp add: set_dropna)
  show ?thesis
  proof (cases "dropna (map year df) = []")
    case True
    then show ?thesis
      unfolding present by (simp add: get_year_limits_def)
  next
    case False
    then show ?thesis
      unfolding present
      by (simp add: get_year_limits_def Let_def series_min_Min series_max_Max py_int_def)
  qed
qed

theorem get_year_limits_result_witness:
  "get_year_limits (load_data [row ''Anna'' (Some 1850) None None, row ''Erin'' None None None,
                              row ''Dora'' (Some 1920) None None]) = Inr (1850, 1920)
   \<and> get_year_limits (load_data [row ''Erin'' None None None]) = Inr (1705, 2000)
   \<and> get_year_limits [] = Inr (1705, 2000)"
proof -
  have a: "{y. Some y \<in> year ` set (load_data [row ''Anna'' (Some 1850) None None,
              row ''Erin'' None None None, row ''Dora'' (Some 1920) None None])} = {1850, 1920}"
    by (auto simp add: load_data_def derive_def row_def raw_row.extend_def)
  have b: "{y. Some y \<in> year ` set (load_data [row ''Erin'' None None None])} = {}"
    by (auto simp add: load_data_def derive_def row_def raw_row.extend_def)
  show ?thesis
    using get_year_limits_result [of "load_data [row ''Anna'' (Some 1850) None None,
              row ''Erin'' None None None, row ''Dora'' (Some 1920) None None]"]
      get_year_limits_result [of "load_data [row ''Erin'' None None None]"]
      get_year_limits_result [of "[]"]
    unfolding a b by simp
qed

subsection \<open>The deadliest wrecks\<close>



lemma series_max_nonempty: "vs \<noteq> [] \<Longrightarrow> \<exists>v. series_max vs = Some v"
  by (cases vs) simp_all

lemma show_deadliest_view_table:
  assumes "filtered \<noteq> []"
  shows "\<exists>ws. show_deadliest_view filtered = Inr ws
          \<and> TopTable (map shown_columns (head 10 (sort_deadly filtered))) \<in> set ws"
proof -
  from assms obtain v where "series_max (map lives_lost_clean filtered) = Some v"
    using series_max_nonempty [of "map lives_lost_clean filtered"] by auto
  with assms show ?thesis
    by (simp add: show_deadliest_view_def Let_def py_int_def)
qed



subsection \<open>The views\<close>

lemma idxmax_fold_label:
  "fst (fold (\<lambda>(l', v') (l, v). if v < v' then (l', v') else (l, v)) s (l0, v0))
     \<in> insert l0 (fst ` set s)"
proof (induction s arbitrary: l0 v0)
  case Nil
  show ?case by simp
next
  case (Cons a s)
  obtain l' v' where a: "a = (l', v')" by (cases a)
  show ?case
    using Cons.IH [of l' v'] Cons.IH [of l0 v0] by (auto simp add: a)
qed

lemma idxmax_label:
  assumes "s \<noteq> []"
  shows "\<exists>l. idxmax s = Inr l \<and> l \<in> fst ` set s"
proof (cases s)
  case Nil
  with assms show ?thesis by simp
next
  case (Cons a s')
  obtain l0 v0 where a: "a = (l0, v0)" by (cases a)
  show ?thesis
    using idxmax_fold_label [of s' l0 v0] by (simp add: Cons a)
qed

lemma row_labels_reset_index: "map row_label (reset_index gs) = [0..<length gs]"
proof -
  have "map row_label (reset_index gs) = map fst (zip [0..<length gs] gs)"
    by (simp add: reset_index_def enumerate_eq_zip case_prod_beta comp_def)
  then show ?thesis by simp
qed

lemma row_labels_sorted_counts:
  "row_label ` set (sort_counts_desc (reset_index gs)) = {0..<length gs}"
proof -
  have "row_label ` set (sort_counts_desc (reset_index gs)) = set (map row_label (reset_index gs))"
    by (simp add: sort_counts_desc_def)
  then show ?thesis
    by (simp only: row_labels_reset_index set_upt)
qed

lemma length_sorted_counts: "length (sort_counts_desc (reset_index gs)) = length gs"
  by (simp add: sort_counts_desc_def reset_index_def)

lemma groupby_count_nonempty:
  assumes "r \<in> set df" and "key r = Some k"
  shows "groupby_count key df \<noteq> []"
proof -
  have "k \<in> set (dropna (map key df))"
    using assms by (force simp add: set_dropna)
  then have "k \<in> fst ` set (groupby_count key df)"
    by (simp add: groupby_count_def image_image)
  then show ?thesis
    by auto
qed

text \<open>On a frame whose records all have a vessel type, the vessel chart view returns:
  the counts frame of a non-empty view is non-empty, and the label \<open>idxmax\<close> returns is
  below the number of its rows, so \<open>iloc\<close> finds a row (not always the right one).\<close>

lemma show_vessel_chart_view_returns:
  assumes "\<forall>r\<in>set filtered. vessel_type r \<noteq> None"
  shows "\<exists>ws. show_vessel_chart_view filtered = Inr ws"
proof (cases "filtered = []")
  case True
  then show ?thesis by (simp add: show_vessel_chart_view_def)
next
  case False
  then obtain r where r: "r \<in> set filtered" by (cases filtered) auto
  with assms obtain k where "vessel_type r = Some k" by auto
  with r have ne: "groupby_count vessel_type filtered \<noteq> []"
    by (rule groupby_count_nonempty)
  define gs where "gs = groupby_count vessel_type filtered"
  define counts where "counts = sort_counts_desc (reset_index gs)"
  have "counts \<noteq> []"
    using ne length_sorted_counts [of gs] by (auto simp add: counts_def gs_def)
  then have "map (\<lambda>r. (row_label r, wreck_count r)) counts \<noteq> []" by simp
  from idxmax_label [OF this] obtain l where
    l: "idxmax (map (\<lambda>r. (row_label r, wreck_count r)) counts) = Inr l"
    and "l \<in> fst ` set (map (\<lambda>r. (row_label r, wreck_count r)) counts)"
    by blast
  then have "l \<in> row_label ` set counts" by force
  then have "l < length counts"
    using row_labels_sorted_counts [of gs] length_sorted_counts [of gs]
    by (simp add: counts_def)
  with l False show ?thesis
    by (simp add: show_vessel_chart_view_def Let_def iloc_def counts_def gs_def)
qed

lemma filter_wrecks_type_present:
  "r \<in> set (filter_wrecks df year_range vessel_types m) \<Longrightarrow> vessel_type r \<noteq> None"
  by (auto simp add: filter_wrecks_filter accept_type_def split: option.splits)

lemma show_view_empty:
  "\<exists>title message. show_view choice [] = Inr [Header title, Info message]"
  by (cases choice)
    (simp_all add: show_map_view_def select_rows_def show_vessel_chart_view_def
      show_time_trend_view_def show_deadliest_view_def)

text \<open>
  C9. On a filtered view no view raises. On an empty view each of the four views writes
  its header and an information message and nothing else, before any reduction is
  computed. In the deadliest view the maximum of \<open>lives_lost_clean\<close> is taken from a
  non-empty view only, where \<open>int(max)\<close> has a value; on the empty series it would
  raise ValueError.
\<close>

theorem views_guard_emptiness:
  assumes "filtered = filter_wrecks df year_range vessel_types m"
  shows "(\<exists>ws. show_view choice filtered = Inr ws)
         \<and> (filtered = [] \<longrightarrow>
              (\<exists>title message. show_view choice filtered = Inr [Header title, Info message]))
         \<and> (filtered \<noteq> [] \<longrightarrow>
              (\<exists>most. py_int (series_max (map lives_lost_clean filtered)) = Inr most))
         \<and> py_int (series_max []) = Inl ValueError"
proof -
  have returns: "\<exists>ws. show_view choice filtered = Inr ws"
  proof (cases choice)
    case MapView
    then show ?thesis by (simp add: show_map_view_def Let_def)
  next
    case VesselTypes
    have "\<forall>r\<in>set filtered. vessel_type r \<noteq> None"
      using assms filter_wrecks_type_present by blast
    then show ?thesis
      using VesselTypes show_vessel_chart_view_returns by simp
  next
    case TimeTrends
    then show ?thesis by (simp add: show_time_trend_view_def Let_def)
  next
    case DeadliestWrecks
    show ?thesis
    proof (cases "filtered = []")
      case True
      with DeadliestWrecks show ?thesis by (simp add: show_deadliest_view_def)
    next
      case False
      with DeadliestWrecks show ?thesis
        using show_deadliest_view_table [OF False] by auto
    qed
  qed
  have most: "filtered \<noteq> [] \<longrightarrow>
      (\<exists>most. py_int (series_max (map lives_lost_clean filtered)) = Inr most)"
    using series_max_nonempty [of "map lives_lost_clean filtered"]
    by (auto simp add: py_int_def)
  show ?thesis
    using returns most show_view_empty [of choice] by (auto simp add: py_int_def)
qed

theorem views_guard_emptiness_witness:
  "filter_wrecks (load_data example_rows) (1840, 1860) (Some [''Steamer'']) 0 = []
   \<and> (\<exists>title message.
        show_view DeadliestWrecks
          (filter_wrecks (load_data example_rows) (1840, 1860) (Some [''Steamer'']) 0)
        = Inr [Header title, Info message])
   \<and> example_view \<noteq> []
   \<and> (\<exists>ws. show_view VesselTypes example_view = Inr ws)
   \<and> (\<exists>most. py_int (series_max (map lives_lost_clean example_view)) = Inr most)"
proof -
  have none: "filter_wrecks (load_data example_rows) (1840, 1860) (Some [''Steamer'']) 0 = []"
    by (simp add: eval_defs)
  have some: "example_view \<noteq> []"
    by (simp add: example_view_eq example_rows_def load_data_def)
  show ?thesis
    using none some
      views_guard_emptiness [of "filter_wrecks (load_data example_rows) (1840, 1860)
          (Some [''Steamer'']) 0" "load_data example_rows" "(1840, 1860)" "Some [''Steamer'']" 0
          DeadliestWrecks, OF refl]
      views_guard_emptiness [of example_view "load_data example_rows" "(1840, 1860)" None 0
          VesselTypes, OF example_view_def]
    by simp
qed

text \<open>
  C2, at a view with one barge and two schooners. The counts frame holds Barge: 1 under
  label 0 and Schooner: 2 under label 1; sorted by count, descending, Schooner comes
  first. \<open>idxmax\<close> returns the label 1 of the Schooner row, \<open>iloc\<close> reads 1 as a
  position of the sorted frame, and the view names Barge, with 1 wreck, as the most
  frequently wrecked vessel type.
\<close>

theorem vessel_chart_names_wrong_group:
  "groupby_count vessel_type example_view = [(''Barge'', 1), (''Schooner'', 2)]
   \<and> show_vessel_chart_view example_view =
       Inr [Header ''Wrecks by Vessel Type'',
            BarChart [\<lparr>row_label = 1, group_key = ''Schooner'', wreck_count = 2\<rparr>,
                      \<lparr>row_label = 0, group_key = ''Barge'', wreck_count = 1\<rparr>],
            MostFrequent ''Barge'' 1,
            CountsTable [\<lparr>row_label = 1, group_key = ''Schooner'', wreck_count = 2\<rparr>,
                         \<lparr>row_label = 0, group_key = ''Barge'', wreck_count = 1\<rparr>]]"
  by code_simp

end
